theory Spec2Isabelle
  imports Main
begin

section \<open>The LIVISI data update coordinator\<close>

text \<open>
  A shallow embedding of \<^verbatim>\<open>custom_components/livisi/coordinator.py\<close>, the class
  \<^verbatim>\<open>LivisiDataUpdateCoordinator\<close>. Every method becomes a function that takes the
  history of external calls made so far and the coordinator's attributes, and returns
  the method's result (an exception or a value), the extended history and the updated
  attributes. One method call is modelled in isolation: nothing else runs between its
  suspension points.
\<close>

subsection \<open>Values\<close>

text \<open>
  Python values of type \<^verbatim>\<open>Any\<close>, as far as they come from JSON: \<^verbatim>\<open>None\<close>, booleans,
  integers, finite floats (mantissa and binary exponent), strings, lists and
  dictionaries with string keys. A character of a \<open>string\<close> stands for one code point.
\<close>

datatype pyval =
    PyNone
  | PyBool bool
  | PyInt int
  | PyFloat int int
  | PyStr string
  | PyList "pyval list"
  | PyDict "(string \<times> pyval) list"

text \<open>Python's truth value of an object, as \<^verbatim>\<open>not x\<close> tests it.\<close>

fun truthy :: "pyval \<Rightarrow> bool" where
  "truthy PyNone = False"
| "truthy (PyBool b) = b"
| "truthy (PyInt i) = (i \<noteq> 0)"
| "truthy (PyFloat m e) = (m \<noteq> 0)"
| "truthy (PyStr s) = (s \<noteq> [])"
| "truthy (PyList xs) = (xs \<noteq> [])"
| "truthy (PyDict kvs) = (kvs \<noteq> [])"

text \<open>
  The exceptions that can cross the coordinator. \<open>OtherException\<close> stands for any
  exception that is an instance of none of the classes the coordinator names.
  \<open>UpdateFailed msg cause\<close> is \<^verbatim>\<open>raise UpdateFailed(msg) from cause\<close>.
\<close>

datatype exn =
    TokenExpiredException
  | ClientConnectorError
  | KeyError string
  | OtherException string
  | UpdateFailed string exn

subsection \<open>Data of the vendor client\<close>

text \<open>
  Modelled from the spec: the type of a device of the vendor client's device list, which
  the module does not declare. The interface gives
  \<^verbatim>\<open>{id, capabilities: sequence of string, location: string|absent}\<close>; the module
  reads the dictionary at the keys \<^verbatim>\<open>"id"\<close> (by subscript), \<^verbatim>\<open>"capabilities"\<close>
  and \<^verbatim>\<open>"location"\<close> (by \<^verbatim>\<open>get\<close>). A field is \<open>None\<close> when the dictionary has
  no such key.
\<close>

record device =
  dev_id :: "string option"
  capabilities :: "string list option"
  location :: "string option"

text \<open>
  Modelled from the spec: the type of a room of the vendor client's room list,
  \<^verbatim>\<open>{id, config: {name: string}}\<close>, read by subscript at \<^verbatim>\<open>"config"\<close>,
  \<^verbatim>\<open>"name"\<close> and \<^verbatim>\<open>"id"\<close>; again \<open>None\<close> is a missing key.
\<close>

record room_config =
  name :: "string option"

record room =
  rm_id :: "string option"
  config :: "room_config option"

text \<open>
  Modelled from the spec: the class \<^verbatim>\<open>LivisiEvent\<close> of the stream's events, which
  is declared outside the module. An event carries a type, a source capability id and
  a payload; the coordinator reads \<^verbatim>\<open>type\<close> (here \<open>event_type\<close>), \<^verbatim>\<open>source\<close>,
  the dictionary \<^verbatim>\<open>properties\<close> with the button index and the press type, and
  five payload attributes, each of which is \<^verbatim>\<open>None\<close> or a value.
\<close>

record livisi_event =
  event_type :: string
  source :: string
  properties :: "string \<rightharpoonup> pyval"
  onState :: pyval
  vrccData :: pyval
  isOpen :: pyval
  luminance :: pyval
  isReachable :: pyval

subsection \<open>Imported constants\<close>

text \<open>
  The constants the module imports from \<^verbatim>\<open>.const\<close> and \<^verbatim>\<open>.aiolivisi.const\<close>. Their
  values are not part of the module, so every function that reads one takes them as the
  parameter \<open>K\<close>.
\<close>

record constants =
  AVATAR :: string
  AVATAR_PORT :: int
  CLASSIC_PORT :: int
  CONF_HOST :: string
  CONF_PASSWORD :: string
  EVENT_BUTTON_PRESSED :: string
  EVENT_MOTION_DETECTED :: string
  LIVISI_REACHABILITY_CHANGE :: string
  LIVISI_STATE_CHANGE :: string
  LIVISI_EVENT_BUTTON_PRESSED :: string
  LIVISI_EVENT_MOTION_DETECTED :: string
  LIVISI_EVENT_STATE_CHANGED :: string

subsection \<open>External calls\<close>

text \<open>
  Every call that leaves the coordinator, in the order the calls are made: the requests
  to the vendor client \<^verbatim>\<open>self.aiolivisi\<close>, the connect of \<^verbatim>\<open>self.websocket\<close>,
  the publish \<^verbatim>\<open>async_dispatcher_send(hass, topic, data)\<close> and the host event
  \<^verbatim>\<open>hass.bus.async_fire(name, data)\<close>.
\<close>

datatype effect =
    SetToken pyval
  | GetController
  | GetDevices
  | GetDeviceState string
  | GetAllRooms
  | WebsocketConnect int
  | DispatcherSend string pyval
  | BusFire string "(string \<times> pyval) list"

text \<open>
  Modelled from the spec: the result types of the vendor client (\<^verbatim>\<open>AioLivisi\<close>) and
  of the stream transport (\<^verbatim>\<open>Websocket\<close>), which are outside the module; what they
  answer is a parameter. Each of their operations is a function of the history of calls
  before it (so a token refresh may change what a later fetch answers) and of its
  arguments; it answers with an exception or a value: the controller data
  \<^verbatim>\<open>{controllerType: string, serialNumber: string}\<close>, the device list, the state
  object \<^verbatim>\<open>mapping<string, {value: any}>\<close> or \<^verbatim>\<open>None\<close>, the room list.
  \<open>aiolivisi_livisi_connection_data\<close> is the client's attribute of that name, read
  after the given history.
\<close>

record env =
  aiolivisi_livisi_connection_data :: "effect list \<Rightarrow> pyval"
  aiolivisi_async_set_token :: "effect list \<Rightarrow> pyval \<Rightarrow> exn option"
  aiolivisi_async_get_controller :: "effect list \<Rightarrow> exn + (string \<rightharpoonup> string)"
  aiolivisi_async_get_devices :: "effect list \<Rightarrow> exn + device list"
  aiolivisi_async_get_device_state ::
    "effect list \<Rightarrow> string \<Rightarrow> exn + (string \<rightharpoonup> (string \<rightharpoonup> pyval)) option"
  aiolivisi_async_get_all_rooms :: "effect list \<Rightarrow> exn + room list"
  websocket_connect :: "effect list \<Rightarrow> int \<Rightarrow> exn option"

subsection \<open>The coordinator's attributes\<close>

text \<open>
  \<open>devices\<close> is the set \<^verbatim>\<open>self.devices\<close> as the list of its elements in the order
  the set iterates them. \<open>data\<close> is the attribute of the base class that holds the
  device list of the last successful refresh; \<open>config_entry_data\<close> is
  \<^verbatim>\<open>self.config_entry.data\<close>.
\<close>

record coordinator =
  config_entry_data :: "string \<rightharpoonup> pyval"
  data :: "device list option"
  devices :: "string list"
  capability_to_device :: "string \<rightharpoonup> string"
  rooms :: "string \<rightharpoonup> string"
  serial_number :: string
  controller_type :: string
  is_avatar :: bool
  port :: int

text \<open>The attributes as \<^verbatim>\<open>__init__\<close> leaves them.\<close>

definition init :: "(string \<rightharpoonup> pyval) \<Rightarrow> coordinator" where
  "init entry_data =
     \<lparr>config_entry_data = entry_data, data = None, devices = [],
      capability_to_device = Map.empty, rooms = Map.empty, serial_number = [],
      controller_type = [], is_avatar = False, port = 0\<rparr>"

subsection \<open>The poll cycle\<close>

text \<open>
  The inner loop of \<^verbatim>\<open>async_get_devices\<close>: for each capability id of one device,
  \<^verbatim>\<open>capability_mapping[capability_id] = device["id"]\<close>. The subscript
  \<^verbatim>\<open>device["id"]\<close> raises \<^verbatim>\<open>KeyError\<close> when the key is missing.
\<close>

fun map_capabilities ::
  "device \<Rightarrow> string list \<Rightarrow> (string \<rightharpoonup> string) \<Rightarrow> exn + (string \<rightharpoonup> string)"
where
  "map_capabilities device [] capability_mapping = Inr capability_mapping"
| "map_capabilities device (capability_id # rest) capability_mapping =
     (case dev_id device of
        None \<Rightarrow> Inl (KeyError ''id'')
      | Some i \<Rightarrow> map_capabilities device rest (capability_mapping(capability_id \<mapsto> i)))"

text \<open>\<^verbatim>\<open>device.get("capabilities", [])\<close>.\<close>

definition get_capabilities :: "device \<Rightarrow> string list" where
  "get_capabilities device = (case capabilities device of None \<Rightarrow> [] | Some cs \<Rightarrow> cs)"

text \<open>The outer loop, over the devices in the order of the list.\<close>

fun map_devices ::
  "device list \<Rightarrow> (string \<rightharpoonup> string) \<Rightarrow> exn + (string \<rightharpoonup> string)"
where
  "map_devices [] capability_mapping = Inr capability_mapping"
| "map_devices (device # rest) capability_mapping =
     (case map_capabilities device (get_capabilities device) capability_mapping of
        Inl e \<Rightarrow> Inl e
      | Inr m \<Rightarrow> map_devices rest m)"

text \<open>
  \<^verbatim>\<open>async_get_devices\<close>: fetch, build the mapping in a local variable starting from
  the empty dictionary, assign it to \<^verbatim>\<open>self.capability_to_device\<close>, return the
  fetched list.
\<close>

definition async_get_devices ::
  "env \<Rightarrow> effect list \<Rightarrow> coordinator \<Rightarrow> (exn + device list) \<times> effect list \<times> coordinator"
where
  "async_get_devices W tr c =
     (case aiolivisi_async_get_devices W tr of
        Inl e \<Rightarrow> (Inl e, tr @ [GetDevices], c)
      | Inr devs \<Rightarrow>
          (case map_devices devs Map.empty of
             Inl e \<Rightarrow> (Inl e, tr @ [GetDevices], c)
           | Inr capability_mapping \<Rightarrow>
               (Inr devs, tr @ [GetDevices],
                c\<lparr>capability_to_device := capability_mapping\<rparr>)))"

text \<open>
  \<^verbatim>\<open>_async_update_data\<close> (an Isabelle name cannot start with an underscore). The
  two handlers belong to the one \<^verbatim>\<open>try\<close>: they catch what the first
  \<^verbatim>\<open>async_get_devices\<close> raises, and nothing catches what is raised inside the
  handler of \<^verbatim>\<open>TokenExpiredException\<close>.
\<close>

definition async_update_data ::
  "env \<Rightarrow> effect list \<Rightarrow> coordinator \<Rightarrow> (exn + device list) \<times> effect list \<times> coordinator"
where
  "async_update_data W tr c =
     (case async_get_devices W tr c of
        (Inr devs, tr1, c1) \<Rightarrow> (Inr devs, tr1, c1)
      | (Inl e, tr1, c1) \<Rightarrow>
          if e = TokenExpiredException then
            (let connection_data = aiolivisi_livisi_connection_data W tr1 in
             case aiolivisi_async_set_token W tr1 connection_data of
               Some e2 \<Rightarrow> (Inl e2, tr1 @ [SetToken connection_data], c1)
             | None \<Rightarrow> async_get_devices W (tr1 @ [SetToken connection_data]) c1)
          else if e = ClientConnectorError then
            (Inl (UpdateFailed ''Failed to get livisi devices from controller'' e), tr1, c1)
          else (Inl e, tr1, c1))"

subsection \<open>Publishing\<close>

text \<open>
  \<^verbatim>\<open>_async_dispatcher_send\<close>: publish \<open>data\<close> on the topic
  \<^verbatim>\<open>f"{event}_{source}"\<close> unless \<open>data\<close> is \<^verbatim>\<open>None\<close>.
\<close>

definition async_dispatcher_send :: "string \<Rightarrow> string \<Rightarrow> pyval \<Rightarrow> effect list \<Rightarrow> effect list" where
  "async_dispatcher_send event src payload tr =
     (if payload \<noteq> PyNone then tr @ [DispatcherSend (event @ ''_'' @ src) payload] else tr)"

subsection \<open>Setup\<close>

text \<open>
  The first statement of \<^verbatim>\<open>async_setup\<close>: when the client has no connection data,
  build it from the configuration entry (a missing key raises \<^verbatim>\<open>KeyError\<close>) and
  request a token. The result is the exception raised, if any, and the history.
\<close>

definition setup_token :: "constants \<Rightarrow> env \<Rightarrow> effect list \<Rightarrow> coordinator \<Rightarrow> exn option \<times> effect list" where
  "setup_token K W tr c =
     (if \<not> truthy (aiolivisi_livisi_connection_data W tr) then
        (case config_entry_data c (CONF_HOST K) of
           None \<Rightarrow> (Some (KeyError (CONF_HOST K)), tr)
         | Some host \<Rightarrow>
             (case config_entry_data c (CONF_PASSWORD K) of
                None \<Rightarrow> (Some (KeyError (CONF_PASSWORD K)), tr)
              | Some password \<Rightarrow>
                  (let livisi_connection_data =
                         PyDict [(''ip_address'', host), (''password'', password)]
                   in (aiolivisi_async_set_token W tr livisi_connection_data,
                       tr @ [SetToken livisi_connection_data]))))
      else (None, tr))"

text \<open>
  \<^verbatim>\<open>async_setup\<close>. The attributes are assigned one after the other, so the
  \<^verbatim>\<open>KeyError\<close> of a missing \<^verbatim>\<open>"serialNumber"\<close> leaves the port, the flag and the
  controller type already assigned.
\<close>

definition async_setup ::
  "constants \<Rightarrow> env \<Rightarrow> effect list \<Rightarrow> coordinator \<Rightarrow> (exn + unit) \<times> effect list \<times> coordinator"
where
  "async_setup K W tr c =
     (case setup_token K W tr c of
        (Some e, tr1) \<Rightarrow> (Inl e, tr1, c)
      | (None, tr1) \<Rightarrow>
          (case aiolivisi_async_get_controller W tr1 of
             Inl e \<Rightarrow> (Inl e, tr1 @ [GetController], c)
           | Inr controller_data \<Rightarrow>
               (case controller_data ''controllerType'' of
                  None \<Rightarrow> (Inl (KeyError ''controllerType''), tr1 @ [GetController], c)
                | Some ctype \<Rightarrow>
                    (let c1 = (if ctype = AVATAR K
                               then c\<lparr>port := AVATAR_PORT K, is_avatar := True\<rparr>
                               else c\<lparr>port := CLASSIC_PORT K, is_avatar := False\<rparr>);
                         c2 = c1\<lparr>controller_type := ctype\<rparr>
                     in case controller_data ''serialNumber'' of
                          None \<Rightarrow> (Inl (KeyError ''serialNumber''), tr1 @ [GetController], c2)
                        | Some serial \<Rightarrow>
                            (Inr (), tr1 @ [GetController], c2\<lparr>serial_number := serial\<rparr>)))))"

subsection \<open>Device state and rooms\<close>

text \<open>
  \<^verbatim>\<open>async_get_device_state\<close>: the client is asked for \<^verbatim>\<open>capability[1:]\<close>; a
  response of \<^verbatim>\<open>None\<close> gives \<^verbatim>\<open>None\<close>, any other response gives
  \<^verbatim>\<open>response.get(key, {}).get("value")\<close>.
\<close>

definition async_get_device_state ::
  "env \<Rightarrow> string \<Rightarrow> string \<Rightarrow> effect list \<Rightarrow> coordinator \<Rightarrow> (exn + pyval) \<times> effect list \<times> coordinator"
where
  "async_get_device_state W capability key tr c =
     (case aiolivisi_async_get_device_state W tr (drop 1 capability) of
        Inl e \<Rightarrow> (Inl e, tr @ [GetDeviceState (drop 1 capability)], c)
      | Inr None \<Rightarrow> (Inr PyNone, tr @ [GetDeviceState (drop 1 capability)], c)
      | Inr (Some response) \<Rightarrow>
          (let entry = (case response key of None \<Rightarrow> Map.empty | Some d \<Rightarrow> d)
           in (Inr (case entry ''value'' of None \<Rightarrow> PyNone | Some v \<Rightarrow> v),
               tr @ [GetDeviceState (drop 1 capability)], c)))"

text \<open>
  The loop of \<^verbatim>\<open>async_set_all_rooms\<close>, which writes into \<^verbatim>\<open>self.rooms\<close> room by
  room. In the assignment the right-hand side \<^verbatim>\<open>available_room_config["name"]\<close> is
  evaluated before the subscript \<^verbatim>\<open>available_room["id"]\<close>.
\<close>

fun set_rooms :: "room list \<Rightarrow> (string \<rightharpoonup> string) \<Rightarrow> exn option \<times> (string \<rightharpoonup> string)" where
  "set_rooms [] rs = (None, rs)"
| "set_rooms (available_room # rest) rs =
     (case config available_room of
        None \<Rightarrow> (Some (KeyError ''config''), rs)
      | Some available_room_config \<Rightarrow>
          (case name available_room_config of
             None \<Rightarrow> (Some (KeyError ''name''), rs)
           | Some n \<Rightarrow>
               (case rm_id available_room of
                  None \<Rightarrow> (Some (KeyError ''id''), rs)
                | Some i \<Rightarrow> set_rooms rest (rs(i \<mapsto> n)))))"

definition async_set_all_rooms ::
  "env \<Rightarrow> effect list \<Rightarrow> coordinator \<Rightarrow> (exn + unit) \<times> effect list \<times> coordinator"
where
  "async_set_all_rooms W tr c =
     (case aiolivisi_async_get_all_rooms W tr of
        Inl e \<Rightarrow> (Inl e, tr @ [GetAllRooms], c)
      | Inr response \<Rightarrow>
          (case set_rooms response (rooms c) of
             (Some e, rs) \<Rightarrow> (Inl e, tr @ [GetAllRooms], c\<lparr>rooms := rs\<rparr>)
           | (None, rs) \<Rightarrow> (Inr (), tr @ [GetAllRooms], c\<lparr>rooms := rs\<rparr>)))"

text \<open>\<^verbatim>\<open>get_room_name\<close>; the result \<open>None\<close> is Python's \<^verbatim>\<open>None\<close>.\<close>

definition get_room_name :: "coordinator \<Rightarrow> device \<Rightarrow> string option" where
  "get_room_name c device =
     (case location device of
        None \<Rightarrow> None
      | Some room_id \<Rightarrow> rooms c room_id)"

subsection \<open>Stream events\<close>

text \<open>\<^verbatim>\<open>d.get(key, default)\<close> on a dictionary.\<close>

definition dict_get :: "(string \<rightharpoonup> pyval) \<Rightarrow> string \<Rightarrow> pyval \<Rightarrow> pyval" where
  "dict_get d key dflt = (case d key of None \<Rightarrow> dflt | Some v \<Rightarrow> v)"

text \<open>
  \<^verbatim>\<open>on_data\<close>, the chain of \<^verbatim>\<open>if\<close> and \<^verbatim>\<open>elif\<close> on the event's type in the
  order of the source.
\<close>

definition on_data ::
  "constants \<Rightarrow> livisi_event \<Rightarrow> effect list \<Rightarrow> coordinator \<Rightarrow> effect list \<times> coordinator"
where
  "on_data K event_data tr c =
     (if event_type event_data = LIVISI_EVENT_BUTTON_PRESSED K then
        (case capability_to_device c (source event_data) of
           None \<Rightarrow> (tr, c)
         | Some device_id \<Rightarrow>
             (tr @ [BusFire ''livisi_event''
                     [(''device_id'', PyStr device_id),
                      (''type'', PyStr (EVENT_BUTTON_PRESSED K)),
                      (''button_index'', dict_get (properties event_data) ''index'' (PyInt 0)),
                      (''press_type'',
                         dict_get (properties event_data) ''type'' (PyStr ''ShortPress''))]],
              c))
      else if event_type event_data = LIVISI_EVENT_MOTION_DETECTED K then
        (case capability_to_device c (source event_data) of
           None \<Rightarrow> (tr, c)
         | Some device_id \<Rightarrow>
             (tr @ [BusFire ''livisi_event''
                     [(''device_id'', PyStr device_id),
                      (''type'', PyStr (EVENT_MOTION_DETECTED K))]],
              c))
      else if event_type event_data = LIVISI_EVENT_STATE_CHANGED K then
        (let tr1 = async_dispatcher_send (LIVISI_STATE_CHANGE K) (source event_data)
                     (onState event_data) tr;
             tr2 = async_dispatcher_send (LIVISI_STATE_CHANGE K) (source event_data)
                     (vrccData event_data) tr1;
             tr3 = async_dispatcher_send (LIVISI_STATE_CHANGE K) (source event_data)
                     (isOpen event_data) tr2;
             tr4 = async_dispatcher_send (LIVISI_STATE_CHANGE K) (source event_data)
                     (luminance event_data) tr3;
             tr5 = async_dispatcher_send (LIVISI_REACHABILITY_CHANGE K) (source event_data)
                     (isReachable event_data) tr4
         in (tr5, c))
      else (tr, c))"

subsection \<open>Stream lifecycle\<close>

text \<open>
  The loop of \<^verbatim>\<open>on_close\<close> over \<^verbatim>\<open>self.devices\<close>: one publish of \<^verbatim>\<open>False\<close>
  for each device id.
\<close>

fun publish_unreachable :: "constants \<Rightarrow> string list \<Rightarrow> effect list \<Rightarrow> effect list" where
  "publish_unreachable K [] tr = tr"
| "publish_unreachable K (device_id # rest) tr =
     publish_unreachable K rest
       (async_dispatcher_send (LIVISI_REACHABILITY_CHANGE K) device_id (PyBool False) tr)"

text \<open>
  \<^verbatim>\<open>on_close\<close>: the loop, then \<^verbatim>\<open>self.websocket.connect(..., self.port)\<close>, whose
  exception (if it raises one) is the result.
\<close>

definition on_close ::
  "constants \<Rightarrow> env \<Rightarrow> effect list \<Rightarrow> coordinator \<Rightarrow> (exn + unit) \<times> effect list \<times> coordinator"
where
  "on_close K W tr c =
     (let tr1 = publish_unreachable K (devices c) tr
      in case websocket_connect W tr1 (port c) of
           Some e \<Rightarrow> (Inl e, tr1 @ [WebsocketConnect (port c)], c)
         | None \<Rightarrow> (Inr (), tr1 @ [WebsocketConnect (port c)], c))"

text \<open>\<^verbatim>\<open>ws_connect\<close>.\<close>

definition ws_connect ::
  "env \<Rightarrow> effect list \<Rightarrow> coordinator \<Rightarrow> (exn + unit) \<times> effect list \<times> coordinator"
where
  "ws_connect W tr c =
     (case websocket_connect W tr (port c) of
        Some e \<Rightarrow> (Inl e, tr @ [WebsocketConnect (port c)], c)
      | None \<Rightarrow> (Inr (), tr @ [WebsocketConnect (port c)], c))"

subsection \<open>Notions of the specification\<close>

text \<open>
  The words of the specification, stated on the device records alone: a device declares
  a capability id when it has a list of capabilities and the id is in it; the
  capability ids declared across a device list; and the device that declares a
  capability id last in the list (the last writer). \<open>is_update_failed\<close> tells whether
  a result is the exception \<^verbatim>\<open>UpdateFailed\<close>.
\<close>

definition declares :: "device \<Rightarrow> string \<Rightarrow> bool" where
  "declares d k = (case capabilities d of None \<Rightarrow> False | Some cs \<Rightarrow> k \<in> set cs)"

definition declared_capabilities :: "device list \<Rightarrow> string set" where
  "declared_capabilities D = {k. \<exists>d \<in> set D. declares d k}"

fun last_declaring :: "device list \<Rightarrow> string \<Rightarrow> device option" where
  "last_declaring [] k = None"
| "last_declaring (d # ds) k =
     (case last_declaring ds k of
        Some later \<Rightarrow> Some later
      | None \<Rightarrow> if declares d k then Some d else None)"

fun is_update_failed :: "exn + 'a \<Rightarrow> bool" where
  "is_update_failed (Inl (UpdateFailed msg cause)) = True"
| "is_update_failed r = False"

subsection \<open>Example values\<close>

text \<open>
  Concrete inputs on which the theorems below are evaluated: one choice of the imported
  constants, two devices that share the capability \<open>c2\<close>, a room, some events, and four
  vendor clients. \<open>online_env\<close> answers every request; \<open>expiring_env\<close> rejects the
  device fetch with an expired token until a token has been set; \<open>expired_env\<close> rejects
  every device fetch with an expired token; \<open>offline_env\<close> cannot be reached;
  \<open>classic_env\<close> is a classic controller whose client already has its connection
  data, and one of its devices has neither capabilities nor an id.
\<close>

definition example_constants :: constants where
  "example_constants =
     \<lparr>AVATAR = ''Avatar'', AVATAR_PORT = 9090, CLASSIC_PORT = 8080,
      CONF_HOST = ''host'', CONF_PASSWORD = ''password'',
      EVENT_BUTTON_PRESSED = ''button_pressed'', EVENT_MOTION_DETECTED = ''motion_detected'',
      LIVISI_REACHABILITY_CHANGE = ''livisi_reachability_change'',
      LIVISI_STATE_CHANGE = ''livisi_state_change'',
      LIVISI_EVENT_BUTTON_PRESSED = ''ButtonPressed'',
      LIVISI_EVENT_MOTION_DETECTED = ''MotionDetected'',
      LIVISI_EVENT_STATE_CHANGED = ''StateChanged''\<rparr>"

definition device_d1 :: device where
  "device_d1 = \<lparr>dev_id = Some ''d1'', capabilities = Some [''c1'', ''c2''], location = Some ''r1''\<rparr>"

definition device_d2 :: device where
  "device_d2 = \<lparr>dev_id = Some ''d2'', capabilities = Some [''c2'', ''c3''], location = None\<rparr>"

definition kitchen :: room where
  "kitchen = \<lparr>rm_id = Some ''r1'', config = Some \<lparr>name = Some ''Kitchen''\<rparr>\<rparr>"

definition online_env :: env where
  "online_env =
     \<lparr>aiolivisi_livisi_connection_data = (\<lambda>h. PyNone),
      aiolivisi_async_set_token = (\<lambda>h d. None),
      aiolivisi_async_get_controller =
        (\<lambda>h. Inr [''controllerType'' \<mapsto> ''Avatar'', ''serialNumber'' \<mapsto> ''914100012345'']),
      aiolivisi_async_get_devices = (\<lambda>h. Inr [device_d1, device_d2]),
      aiolivisi_async_get_device_state =
        (\<lambda>h capability.
           if capability = ''c1''
           then Inr (Some [''onState'' \<mapsto> [''value'' \<mapsto> PyBool True]])
           else Inr None),
      aiolivisi_async_get_all_rooms = (\<lambda>h. Inr [kitchen]),
      websocket_connect = (\<lambda>h p. None)\<rparr>"

definition expiring_env :: env where
  "expiring_env =
     online_env\<lparr>aiolivisi_async_get_devices :=
       (\<lambda>h. if SetToken PyNone \<in> set h then Inr [device_d1]
            else Inl TokenExpiredException)\<rparr>"

definition expired_env :: env where
  "expired_env = online_env\<lparr>aiolivisi_async_get_devices := (\<lambda>h. Inl TokenExpiredException)\<rparr>"

definition offline_env :: env where
  "offline_env =
     online_env\<lparr>aiolivisi_async_get_devices := (\<lambda>h. Inl ClientConnectorError),
                aiolivisi_async_get_controller := (\<lambda>h. Inl ClientConnectorError)\<rparr>"

definition device_bare :: device where
  "device_bare = \<lparr>dev_id = None, capabilities = None, location = None\<rparr>"

definition classic_env :: env where
  "classic_env =
     online_env\<lparr>aiolivisi_livisi_connection_data :=
                  (\<lambda>h. PyDict [(''ip_address'', PyStr ''192.168.1.21''),
                               (''password'', PyStr ''secret'')]),
                aiolivisi_async_get_controller :=
                  (\<lambda>h. Inr [''controllerType'' \<mapsto> ''Classic'',
                            ''serialNumber'' \<mapsto> ''914100067890'']),
                aiolivisi_async_get_devices := (\<lambda>h. Inr [device_bare, device_d2])\<rparr>"

definition configured :: coordinator where
  "configured = init [''host'' \<mapsto> PyStr ''192.168.1.20'', ''password'' \<mapsto> PyStr ''secret'']"

definition polled :: coordinator where
  "polled =
     configured\<lparr>devices := [''d1'', ''d2''],
                capability_to_device := [''c1'' \<mapsto> ''d1'', ''c2'' \<mapsto> ''d1''],
                port := 9090\<rparr>"

definition button_event :: livisi_event where
  "button_event =
     \<lparr>event_type = ''ButtonPressed'', source = ''c1'',
      properties = [''index'' \<mapsto> PyInt 2, ''type'' \<mapsto> PyStr ''LongPress''],
      onState = PyNone, vrccData = PyNone, isOpen = PyNone, luminance = PyNone,
      isReachable = PyNone\<rparr>"

definition luminance_event :: livisi_event where
  "luminance_event =
     \<lparr>event_type = ''StateChanged'', source = ''c1'', properties = Map.empty,
      onState = PyNone, vrccData = PyNone, isOpen = PyNone, luminance = PyInt 42,
      isReachable = PyNone\<rparr>"

definition config_event :: livisi_event where
  "config_event =
     \<lparr>event_type = ''ConfigChanged'', source = ''c1'', properties = Map.empty,
      onState = PyBool True, vrccData = PyNone, isOpen = PyNone, luminance = PyNone,
      isReachable = PyBool True\<rparr>"

section \<open>Properties\<close>

subsection \<open>Auxiliary facts\<close>

lemma find_app:
  "find P (xs @ ys) = (case find P xs of None \<Rightarrow> find P ys | Some x \<Rightarrow> Some x)"
  by (induction xs) simp_all

lemma find_Some_mem: "find P xs = Some x \<Longrightarrow> x \<in> set xs \<and> P x"
  by (induction xs) (auto split: if_splits)

lemma map_capabilities_Inr:
  "map_capabilities d cs m = Inr m' \<Longrightarrow> m' = (\<lambda>k. if k \<in> set cs then dev_id d else m k)"
proof (induction cs arbitrary: m)
  case Nil
  then show ?case by simp
next
  case (Cons a cs)
  then obtain i where i: "dev_id d = Some i"
    by (cases "dev_id d") auto
  with Cons.prems have "map_capabilities d cs (m(a \<mapsto> i)) = Inr m'" by simp
  from Cons.IH[OF this] show ?case using i by auto
qed

lemma map_capabilities_id:
  "map_capabilities d cs m = Inr m' \<Longrightarrow> cs \<noteq> [] \<Longrightarrow> dev_id d \<noteq> None"
  by (cases cs) (auto split: option.splits)

lemma declares_iff: "declares d k \<longleftrightarrow> k \<in> set (get_capabilities d)"
  by (simp add: declares_def get_capabilities_def split: option.split)

lemma declares_some_iff: "(\<exists>k. declares d k) \<longleftrightarrow> get_capabilities d \<noteq> []"
  by (cases "get_capabilities d") (auto simp add: declares_iff)

lemma last_declaring_find:
  "last_declaring D k = find (\<lambda>d. k \<in> set (get_capabilities d)) (rev D)"
  by (induction D) (simp_all add: find_app declares_iff split: option.split)

lemma map_capabilities_succeeds:
  "cs \<noteq> [] \<longrightarrow> dev_id d \<noteq> None \<Longrightarrow> \<exists>m'. map_capabilities d cs m = Inr m'"
  by (induction cs arbitrary: m) auto

lemma map_devices_succeeds:
  "\<forall>d \<in> set ds. get_capabilities d \<noteq> [] \<longrightarrow> dev_id d \<noteq> None \<Longrightarrow>
     \<exists>m'. map_devices ds m = Inr m'"
proof (induction ds arbitrary: m)
  case Nil
  then show ?case by simp
next
  case (Cons d ds)
  then have "get_capabilities d \<noteq> [] \<longrightarrow> dev_id d \<noteq> None" by simp
  from map_capabilities_succeeds[OF this]
  obtain m1 where m1: "map_capabilities d (get_capabilities d) m = Inr m1" by blast
  from Cons.prems have "\<forall>d \<in> set ds. get_capabilities d \<noteq> [] \<longrightarrow> dev_id d \<noteq> None" by simp
  from Cons.IH[OF this] obtain m' where "map_devices ds m1 = Inr m'" by blast
  with m1 show ?case by simp
qed

lemma map_devices_Inr:
  "map_devices ds m = Inr m' \<Longrightarrow>
     m' k = (case last_declaring ds k of None \<Rightarrow> m k | Some d \<Rightarrow> dev_id d)"
  unfolding last_declaring_find
proof (induction ds arbitrary: m)
  case Nil
  then show ?case by simp
next
  case (Cons d ds)
  then obtain m1 where m1: "map_capabilities d (get_capabilities d) m = Inr m1"
    and rest: "map_devices ds m1 = Inr m'"
    by (auto split: sum.splits)
  have "m' k = (case find (\<lambda>d. k \<in> set (get_capabilities d)) (rev ds) of
                  None \<Rightarrow> m1 k | Some d \<Rightarrow> dev_id d)"
    by (rule Cons.IH[OF rest])
  moreover have "m1 k = (if k \<in> set (get_capabilities d) then dev_id d else m k)"
    using map_capabilities_Inr[OF m1] by simp
  ultimately show ?case
    by (simp add: find_app split: option.splits)
qed

lemma map_devices_ids:
  "map_devices ds m = Inr m' \<Longrightarrow> d \<in> set ds \<Longrightarrow> get_capabilities d \<noteq> [] \<Longrightarrow> dev_id d \<noteq> None"
proof (induction ds arbitrary: m)
  case Nil
  then show ?case by simp
next
  case (Cons a ds)
  then obtain m1 where m1: "map_capabilities a (get_capabilities a) m = Inr m1"
    and rest: "map_devices ds m1 = Inr m'"
    by (auto split: sum.splits)
  show ?case
  proof (cases "d = a")
    case True
    with m1 Cons.prems(3) show ?thesis by (auto dest: map_capabilities_id)
  next
    case False
    with Cons.prems(2) have "d \<in> set ds" by simp
    from Cons.IH[OF rest this Cons.prems(3)] show ?thesis .
  qed
qed

lemma last_declaring_None: "last_declaring D k = None \<longleftrightarrow> k \<notin> declared_capabilities D"
  by (auto simp add: last_declaring_find declared_capabilities_def declares_iff find_None_iff)

lemma last_declaring_Some:
  "last_declaring D k = Some d \<Longrightarrow> d \<in> set D \<and> declares d k"
  using find_Some_mem[of "\<lambda>d. k \<in> set (get_capabilities d)" "rev D" d]
  by (simp add: last_declaring_find declares_iff)

lemma async_get_devices_Inr:
  assumes "async_get_devices W tr c = (Inr D, tr', c')"
  shows "aiolivisi_async_get_devices W tr = Inr D"
    and "tr' = tr @ [GetDevices]"
    and "\<exists>m. map_devices D Map.empty = Inr m \<and> c' = c\<lparr>capability_to_device := m\<rparr>"
  using assms by (auto simp add: async_get_devices_def split: sum.splits)

lemma async_get_devices_Inl:
  assumes "async_get_devices W tr c = (Inl e, tr', c')"
  shows "c' = c" and "tr' = tr @ [GetDevices]"
  using assms by (auto simp add: async_get_devices_def split: sum.splits)

lemma async_get_devices_trace: "fst (snd (async_get_devices W tr c)) = tr @ [GetDevices]"
  by (simp add: async_get_devices_def split: sum.split)

lemma async_get_devices_client_Inl:
  "aiolivisi_async_get_devices W tr = Inl e \<Longrightarrow>
     async_get_devices W tr c = (Inl e, tr @ [GetDevices], c)"
  by (simp add: async_get_devices_def)

lemma publish_unreachable_eq:
  "publish_unreachable K ds tr =
     tr @ map (\<lambda>d. DispatcherSend (LIVISI_REACHABILITY_CHANGE K @ ''_'' @ d) (PyBool False)) ds"
  by (induction ds arbitrary: tr) (simp_all add: async_dispatcher_send_def)

lemma setup_token_trace:
  "setup_token K W tr c = (r, tr1) \<Longrightarrow> tr1 = tr \<or> (\<exists>d. tr1 = tr @ [SetToken d])"
  by (auto simp add: setup_token_def Let_def split: if_splits option.splits)

lemma triple_eqI: "fst p = a \<Longrightarrow> fst (snd p) = b \<Longrightarrow> p = (a, b, snd (snd p))"
  by (cases p) simp

subsection \<open>The poll cycle\<close>

text \<open>
  C1, as the code has it. When the first device fetch of a poll cycle fails with an
  expired token, the token is refreshed once with the client's connection data; if the
  refresh succeeds the fetch is made exactly once more, so the calls of the cycle are
  fetch, refresh, fetch. A retry that succeeds gives its device list as the result; a
  retry that fails with anything but a connectivity error gives that failure
  unchanged, because the handlers of the \<^verbatim>\<open>try\<close> do not cover the statements of a
  handler. A failed refresh is the result unchanged, with no retry. A connectivity
  error of the first fetch is reported as \<^verbatim>\<open>UpdateFailed\<close>, and any other failure
  of the first \<^verbatim>\<open>async_get_devices\<close> is the result unchanged.
\<close>

theorem async_update_data_retry_policy:
  "(aiolivisi_async_get_devices W tr = Inl TokenExpiredException
      \<and> aiolivisi_async_set_token W (tr @ [GetDevices])
            (aiolivisi_livisi_connection_data W (tr @ [GetDevices])) = None
    \<longrightarrow>
      fst (snd (async_update_data W tr c)) =
        tr @ [GetDevices, SetToken (aiolivisi_livisi_connection_data W (tr @ [GetDevices])),
              GetDevices]
      \<and> (\<forall>D tr' c'.
            async_get_devices W
              (tr @ [GetDevices, SetToken (aiolivisi_livisi_connection_data W (tr @ [GetDevices]))])
              c = (Inr D, tr', c')
            \<longrightarrow> async_update_data W tr c = (Inr D, tr', c'))
      \<and> (\<forall>e tr' c'.
            async_get_devices W
              (tr @ [GetDevices, SetToken (aiolivisi_livisi_connection_data W (tr @ [GetDevices]))])
              c = (Inl e, tr', c')
              \<and> e \<noteq> ClientConnectorError
            \<longrightarrow> async_update_data W tr c = (Inl e, tr', c')))
   \<and> (\<forall>e. aiolivisi_async_get_devices W tr = Inl TokenExpiredException
          \<and> aiolivisi_async_set_token W (tr @ [GetDevices])
                (aiolivisi_livisi_connection_data W (tr @ [GetDevices])) = Some e
        \<longrightarrow> async_update_data W tr c =
              (Inl e,
               tr @ [GetDevices, SetToken (aiolivisi_livisi_connection_data W (tr @ [GetDevices]))],
               c))
   \<and> (aiolivisi_async_get_devices W tr = Inl ClientConnectorError
        \<longrightarrow> async_update_data W tr c =
              (Inl (UpdateFailed ''Failed to get livisi devices from controller''
                      ClientConnectorError),
               tr @ [GetDevices], c))
   \<and> (\<forall>e tr' c'.
         async_get_devices W tr c = (Inl e, tr', c')
           \<and> e \<noteq> TokenExpiredException \<and> e \<noteq> ClientConnectorError
        \<longrightarrow> async_update_data W tr c = (Inl e, tr', c'))"
proof -
  let ?cd = "aiolivisi_livisi_connection_data W (tr @ [GetDevices])"
  have refresh_ok:
    "fst (snd (async_update_data W tr c)) = tr @ [GetDevices, SetToken ?cd, GetDevices]
     \<and> async_update_data W tr c = async_get_devices W (tr @ [GetDevices, SetToken ?cd]) c"
    if "aiolivisi_async_get_devices W tr = Inl TokenExpiredException"
      and "aiolivisi_async_set_token W (tr @ [GetDevices]) ?cd = None"
    using that
    by (simp add: async_update_data_def async_get_devices_client_Inl async_get_devices_trace)
  have refresh_fails:
    "async_update_data W tr c = (Inl e, tr @ [GetDevices, SetToken ?cd], c)"
    if "aiolivisi_async_get_devices W tr = Inl TokenExpiredException"
      and "aiolivisi_async_set_token W (tr @ [GetDevices]) ?cd = Some e" for e
    using that by (simp add: async_update_data_def async_get_devices_client_Inl)
  have connectivity:
    "async_update_data W tr c =
       (Inl (UpdateFailed ''Failed to get livisi devices from controller'' ClientConnectorError),
        tr @ [GetDevices], c)"
    if "aiolivisi_async_get_devices W tr = Inl ClientConnectorError"
    using that by (simp add: async_update_data_def async_get_devices_client_Inl)
  have other: "async_update_data W tr c = (Inl e, tr', c')"
    if "async_get_devices W tr c = (Inl e, tr', c')"
      and "e \<noteq> TokenExpiredException" and "e \<noteq> ClientConnectorError" for e tr' c'
    using that by (simp add: async_update_data_def)
  from refresh_ok refresh_fails connectivity other show ?thesis
    by (intro conjI impI allI; (elim conjE)?; simp)
qed

text \<open>
  The theorem at work. With \<open>expiring_env\<close> the cycle makes the calls fetch, refresh,
  fetch and returns the retry's device list; with \<open>offline_env\<close> it reports
  \<^verbatim>\<open>UpdateFailed\<close> after one fetch.
\<close>

theorem async_update_data_retry_policy_witness:
  "fst (snd (async_update_data expiring_env [] configured)) =
     [GetDevices, SetToken PyNone, GetDevices]
   \<and> fst (async_update_data expiring_env [] configured) = Inr [device_d1]
   \<and> async_update_data offline_env [] configured =
       (Inl (UpdateFailed ''Failed to get livisi devices from controller'' ClientConnectorError),
        [GetDevices], configured)"
proof -
  have first: "aiolivisi_async_get_devices expiring_env [] = Inl TokenExpiredException"
    by (simp add: expiring_env_def online_env_def)
  have refresh: "aiolivisi_async_set_token expiring_env ([] @ [GetDevices])
                   (aiolivisi_livisi_connection_data expiring_env ([] @ [GetDevices])) = None"
    by (simp add: expiring_env_def online_env_def)
  have cd: "aiolivisi_livisi_connection_data expiring_env ([] @ [GetDevices]) = PyNone"
    by (simp add: expiring_env_def online_env_def)
  have retry: "async_get_devices expiring_env ([] @ [GetDevices, SetToken PyNone]) configured =
                 (Inr [device_d1], [GetDevices, SetToken PyNone, GetDevices],
                  snd (snd (async_get_devices expiring_env
                              ([] @ [GetDevices, SetToken PyNone]) configured)))"
    by (rule triple_eqI)
       (simp_all add: async_get_devices_def expiring_env_def online_env_def device_d1_def
          get_capabilities_def)
  have off: "aiolivisi_async_get_devices offline_env [] = Inl ClientConnectorError"
    by (simp add: offline_env_def online_env_def)
  note p = async_update_data_retry_policy[of expiring_env "[]" configured]
  note q = async_update_data_retry_policy[of offline_env "[]" configured]
  from p first refresh cd
  have t: "fst (snd (async_update_data expiring_env [] configured)) =
             [GetDevices, SetToken PyNone, GetDevices]"
    by simp
  from p first refresh cd retry
  have "async_update_data expiring_env [] configured =
          (Inr [device_d1], [GetDevices, SetToken PyNone, GetDevices],
           snd (snd (async_get_devices expiring_env
                       ([] @ [GetDevices, SetToken PyNone]) configured)))"
    by simp
  then have r: "fst (async_update_data expiring_env [] configured) = Inr [device_d1]"
    by simp
  from q off
  have u: "async_update_data offline_env [] configured =
       (Inl (UpdateFailed ''Failed to get livisi devices from controller'' ClientConnectorError),
        [GetDevices], configured)"
    by simp
  from t r u show ?thesis by simp
qed

text \<open>
  C1 as stated does not hold: when the retry fails too, the cycle does not report
  \<^verbatim>\<open>UpdateFailed\<close>. With \<open>expired_env\<close> both fetches fail with an expired token, and
  the result of the cycle is the second \<^verbatim>\<open>TokenExpiredException\<close> itself.
\<close>

theorem async_update_data_retry_fails_counterexample:
  "async_update_data expired_env [] configured =
     (Inl TokenExpiredException, [GetDevices, SetToken PyNone, GetDevices], configured)
   \<and> \<not> is_update_failed (fst (async_update_data expired_env [] configured))"
  by (simp add: async_update_data_def async_get_devices_def expired_env_def online_env_def)

lemma async_get_devices_index_of_run:
  assumes "async_get_devices W tr c = (Inr D, tr', c')"
  shows "dom (capability_to_device c') = declared_capabilities D
         \<and> (\<forall>k \<in> declared_capabilities D.
               \<exists>d i. last_declaring D k = Some d \<and> d \<in> set D \<and> declares d k
                     \<and> dev_id d = Some i \<and> capability_to_device c' k = Some i)
         \<and> c' = c\<lparr>capability_to_device := capability_to_device c'\<rparr>"
proof -
  from async_get_devices_Inr[OF assms] obtain m
    where m: "map_devices D Map.empty = Inr m"
      and c': "c' = c\<lparr>capability_to_device := m\<rparr>"
    by blast
  have look: "m k = (case last_declaring D k of None \<Rightarrow> None | Some d \<Rightarrow> dev_id d)" for k
    using map_devices_Inr[OF m] by simp
  have each: "\<exists>d i. last_declaring D k = Some d \<and> d \<in> set D \<and> declares d k
                     \<and> dev_id d = Some i \<and> m k = Some i"
    if k: "k \<in> declared_capabilities D" for k
  proof -
    from k obtain d where d: "last_declaring D k = Some d"
      using last_declaring_None[of D k] by (cases "last_declaring D k") auto
    from last_declaring_Some[OF d] have mem: "d \<in> set D" and dk: "declares d k"
      by simp_all
    from dk have "get_capabilities d \<noteq> []" by (auto simp add: declares_iff)
    from map_devices_ids[OF m mem this] obtain i where i: "dev_id d = Some i" by auto
    from look[of k] d i have "m k = Some i" by simp
    with d mem dk i show ?thesis by blast
  qed
  have dom: "dom m = declared_capabilities D"
  proof
    show "dom m \<subseteq> declared_capabilities D"
    proof
      fix k assume "k \<in> dom m"
      then have "m k \<noteq> None" by auto
      with look[of k] have "last_declaring D k \<noteq> None" by (auto split: option.splits)
      then show "k \<in> declared_capabilities D" by (simp add: last_declaring_None)
    qed
    show "declared_capabilities D \<subseteq> dom m"
      using each by fastforce
  qed
  from dom each c' show ?thesis by simp
qed

text \<open>
  C2. Whenever the vendor client answers a device list \<open>D\<close> in which every device that
  declares a capability has an id, \<^verbatim>\<open>async_get_devices\<close> succeeds after its one
  fetch and returns \<open>D\<close> itself; the keys of \<^verbatim>\<open>capability_to_device\<close> are then
  exactly the capability ids declared across \<open>D\<close>, every such id is mapped to the id of
  a device of \<open>D\<close> that declares it, namely of the device that declares it last in
  \<open>D\<close>, and no other attribute of the coordinator changes. Conversely the call returns
  \<open>D\<close> only when the client answered \<open>D\<close> and every declaring device has an id.
\<close>

theorem async_get_devices_index:
  "(aiolivisi_async_get_devices W tr = Inr D
      \<and> (\<forall>d \<in> set D. (\<exists>k. declares d k) \<longrightarrow> dev_id d \<noteq> None)
    \<longrightarrow>
      fst (async_get_devices W tr c) = Inr D
      \<and> fst (snd (async_get_devices W tr c)) = tr @ [GetDevices]
      \<and> dom (capability_to_device (snd (snd (async_get_devices W tr c))))
          = declared_capabilities D
      \<and> (\<forall>k \<in> declared_capabilities D.
            \<exists>d i. last_declaring D k = Some d \<and> d \<in> set D \<and> declares d k
                  \<and> dev_id d = Some i
                  \<and> capability_to_device (snd (snd (async_get_devices W tr c))) k = Some i)
      \<and> snd (snd (async_get_devices W tr c))
          = c\<lparr>capability_to_device :=
                capability_to_device (snd (snd (async_get_devices W tr c)))\<rparr>)
   \<and> (\<forall>tr' c'. async_get_devices W tr c = (Inr D, tr', c') \<longrightarrow>
         aiolivisi_async_get_devices W tr = Inr D
         \<and> (\<forall>d \<in> set D. (\<exists>k. declares d k) \<longrightarrow> dev_id d \<noteq> None))"
proof -
  let ?r = "async_get_devices W tr c"
  have forward:
    "fst ?r = Inr D
      \<and> fst (snd ?r) = tr @ [GetDevices]
      \<and> dom (capability_to_device (snd (snd ?r))) = declared_capabilities D
      \<and> (\<forall>k \<in> declared_capabilities D.
            \<exists>d i. last_declaring D k = Some d \<and> d \<in> set D \<and> declares d k
                  \<and> dev_id d = Some i
                  \<and> capability_to_device (snd (snd ?r)) k = Some i)
      \<and> snd (snd ?r) = c\<lparr>capability_to_device := capability_to_device (snd (snd ?r))\<rparr>"
    if fetch: "aiolivisi_async_get_devices W tr = Inr D"
      and ids: "\<forall>d \<in> set D. (\<exists>k. declares d k) \<longrightarrow> dev_id d \<noteq> None"
  proof -
    from ids have "\<forall>d \<in> set D. get_capabilities d \<noteq> [] \<longrightarrow> dev_id d \<noteq> None"
      by (simp add: declares_some_iff)
    from map_devices_succeeds[OF this] obtain m where "map_devices D Map.empty = Inr m"
      by blast
    with fetch have f: "fst ?r = Inr D"
      by (simp add: async_get_devices_def)
    have t: "fst (snd ?r) = tr @ [GetDevices]"
      by (rule async_get_devices_trace)
    have run: "?r = (Inr D, tr @ [GetDevices], snd (snd ?r))"
      by (rule triple_eqI[OF f t])
    from async_get_devices_index_of_run[OF run] f t show ?thesis by blast
  qed
  have backward:
    "aiolivisi_async_get_devices W tr = Inr D
     \<and> (\<forall>d \<in> set D. (\<exists>k. declares d k) \<longrightarrow> dev_id d \<noteq> None)"
    if run: "?r = (Inr D, tr', c')" for tr' c'
  proof -
    from async_get_devices_Inr[OF run] obtain m
      where fetch: "aiolivisi_async_get_devices W tr = Inr D"
        and m: "map_devices D Map.empty = Inr m"
      by blast
    have "dev_id d \<noteq> None" if "d \<in> set D" and "\<exists>k. declares d k" for d
      using map_devices_ids[OF m that(1)] that(2) by (simp add: declares_some_iff)
    with fetch show ?thesis by blast
  qed
  from forward backward show ?thesis by blast
qed

text \<open>
  The theorem at work. \<open>online_env\<close> answers the devices \<open>d1\<close> (capabilities \<open>c1\<close>,
  \<open>c2\<close>) and \<open>d2\<close> (capabilities \<open>c2\<close>, \<open>c3\<close>): the index has the keys \<open>c1\<close>,
  \<open>c2\<close>, \<open>c3\<close>, and the shared \<open>c2\<close> belongs to the later device \<open>d2\<close>.
  \<open>classic_env\<close> answers a device without capabilities and \<open>d2\<close>: the call succeeds
  and the index has the keys \<open>c2\<close> and \<open>c3\<close>.
\<close>

theorem async_get_devices_index_witness:
  "fst (async_get_devices online_env [] configured) = Inr [device_d1, device_d2]
   \<and> dom (capability_to_device (snd (snd (async_get_devices online_env [] configured))))
       = {''c1'', ''c2'', ''c3''}
   \<and> capability_to_device (snd (snd (async_get_devices online_env [] configured))) ''c2''
       = Some ''d2''
   \<and> fst (async_get_devices classic_env [] polled) = Inr [device_bare, device_d2]
   \<and> dom (capability_to_device (snd (snd (async_get_devices classic_env [] polled))))
       = {''c2'', ''c3''}"
proof -
  let ?c' = "snd (snd (async_get_devices online_env [] configured))"
  have fetch: "aiolivisi_async_get_devices online_env [] = Inr [device_d1, device_d2]"
    by (simp add: online_env_def)
  have ids: "\<forall>d \<in> set [device_d1, device_d2]. (\<exists>k. declares d k) \<longrightarrow> dev_id d \<noteq> None"
    by (simp add: device_d1_def device_d2_def)
  have decl: "declared_capabilities [device_d1, device_d2] = {''c1'', ''c2'', ''c3''}"
    by (auto simp add: declared_capabilities_def declares_def device_d1_def device_d2_def)
  have lastd: "last_declaring [device_d1, device_d2] ''c2'' = Some device_d2"
    by (simp add: declares_def device_d1_def device_d2_def)
  from async_get_devices_index[of online_env "[]" "[device_d1, device_d2]" configured]
    fetch ids
  have p: "fst (async_get_devices online_env [] configured) = Inr [device_d1, device_d2]
      \<and> dom (capability_to_device ?c') = declared_capabilities [device_d1, device_d2]
      \<and> (\<forall>k \<in> declared_capabilities [device_d1, device_d2].
            \<exists>d i. last_declaring [device_d1, device_d2] k = Some d
                  \<and> d \<in> set [device_d1, device_d2] \<and> declares d k
                  \<and> dev_id d = Some i \<and> capability_to_device ?c' k = Some i)"
    by blast
  from p have f: "fst (async_get_devices online_env [] configured) = Inr [device_d1, device_d2]"
    by blast
  from p have d: "dom (capability_to_device ?c') = {''c1'', ''c2'', ''c3''}"
    unfolding decl by blast
  from p have "\<exists>d i. last_declaring [device_d1, device_d2] ''c2'' = Some d
                  \<and> d \<in> set [device_d1, device_d2] \<and> declares d ''c2''
                  \<and> dev_id d = Some i \<and> capability_to_device ?c' ''c2'' = Some i"
    unfolding decl by blast
  then have c2: "capability_to_device ?c' ''c2'' = Some ''d2''"
    unfolding lastd by (auto simp add: device_d2_def)
  have fetch2: "aiolivisi_async_get_devices classic_env [] = Inr [device_bare, device_d2]"
    by (simp add: classic_env_def online_env_def)
  have ids2: "\<forall>d \<in> set [device_bare, device_d2]. (\<exists>k. declares d k) \<longrightarrow> dev_id d \<noteq> None"
    by (simp add: device_bare_def device_d2_def declares_def)
  have decl2: "declared_capabilities [device_bare, device_d2] = {''c2'', ''c3''}"
    by (auto simp add: declared_capabilities_def declares_def device_bare_def device_d2_def)
  from async_get_devices_index[of classic_env "[]" "[device_bare, device_d2]" polled]
    fetch2 ids2
  have q: "fst (async_get_devices classic_env [] polled) = Inr [device_bare, device_d2]
      \<and> dom (capability_to_device (snd (snd (async_get_devices classic_env [] polled))))
          = declared_capabilities [device_bare, device_d2]"
    by blast
  from f d c2 q show ?thesis unfolding decl2 by simp
qed

text \<open>
  C5. A poll cycle that fails, whatever the failure and whichever of its fetches failed
  last, leaves every attribute of the coordinator as it was before the cycle: the
  capability index, the device snapshot \<open>data\<close> and all the others. The same holds for
  a single \<^verbatim>\<open>async_get_devices\<close> that fails, since the index is assigned only after
  the fetch and the loop have succeeded.
\<close>

theorem failed_poll_keeps_state:
  "(\<forall>e tr' c'. async_update_data W tr c = (Inl e, tr', c') \<longrightarrow> c' = c)
   \<and> (\<forall>e tr' c'. async_get_devices W tr c = (Inl e, tr', c') \<longrightarrow> c' = c)"
proof -
  have get: "c' = c" if "async_get_devices W t c = (Inl e, tr', c')" for e t tr' c'
    using that by (rule async_get_devices_Inl(1))
  have upd: "c' = c" if u: "async_update_data W tr c = (Inl e, tr', c')" for e tr' c'
  proof (cases "async_get_devices W tr c")
    case (fields r tr1 c1)
    show ?thesis
    proof (cases r)
      case (Inr D)
      with fields u show ?thesis by (simp add: async_update_data_def)
    next
      case (Inl e1)
      with fields have c1: "c1 = c" by (simp add: get)
      show ?thesis
      proof (cases "e1 = TokenExpiredException")
        case True
        show ?thesis
        proof (cases "aiolivisi_async_set_token W tr1 (aiolivisi_livisi_connection_data W tr1)")
          case None
          with True Inl fields u c1
          have "async_get_devices W (tr1 @ [SetToken (aiolivisi_livisi_connection_data W tr1)]) c
                  = (Inl e, tr', c')"
            by (simp add: async_update_data_def Let_def)
          then show ?thesis by (rule get)
        next
          case (Some e2)
          with True Inl fields u c1 show ?thesis
            by (simp add: async_update_data_def Let_def)
        qed
      next
        case False
        with Inl fields u c1 show ?thesis
          by (simp add: async_update_data_def split: if_splits)
      qed
    qed
  qed
  from get upd show ?thesis by blast
qed

text \<open>
  The theorem at work: the coordinator \<open>polled\<close> holds an index; a cycle against the
  unreachable \<open>offline_env\<close> fails and the index is still there.
\<close>

theorem failed_poll_keeps_state_witness:
  "is_update_failed (fst (async_update_data offline_env [] polled))
   \<and> snd (snd (async_update_data offline_env [] polled)) = polled
   \<and> capability_to_device (snd (snd (async_update_data offline_env [] polled))) ''c1''
       = Some ''d1''"
proof -
  let ?r = "async_update_data offline_env [] polled"
  have res: "fst ?r =
               Inl (UpdateFailed ''Failed to get livisi devices from controller''
                      ClientConnectorError)"
    by (simp add: async_update_data_def async_get_devices_def offline_env_def online_env_def)
  then have run: "?r =
               (Inl (UpdateFailed ''Failed to get livisi devices from controller''
                       ClientConnectorError), fst (snd ?r), snd (snd ?r))"
    by (rule triple_eqI) simp
  from failed_poll_keeps_state[of offline_env "[]" polled] run
  have same: "snd (snd ?r) = polled" by blast
  have "capability_to_device polled ''c1'' = Some ''d1''"
    by (simp add: polled_def)
  with res same show ?thesis by simp
qed

subsection \<open>Setup\<close>

text \<open>
  C8. \<^verbatim>\<open>async_setup\<close> succeeds whenever the token step succeeds and the controller
  data that is fetched has a controller type and a serial number: both are then
  stored, and the port and the flag follow the type, the avatar port and \<open>True\<close> when
  the type equals \<^verbatim>\<open>AVATAR\<close>, the classic port and \<open>False\<close> otherwise; nothing else
  changes. The token step succeeds without a request when the client has connection
  data, and with the one request built from the configuration entry when it has none
  and the request is accepted. Conversely every successful setup has fetched such
  controller data and stored it in this way. A failing token request ends the setup
  with that exception after the one request; a failing controller fetch ends it with
  that exception after the one fetch, with the attributes unchanged.
\<close>

theorem async_setup_controller:
  "(\<forall>tr1 controller_data ctype serial.
      setup_token K W tr c = (None, tr1)
        \<and> aiolivisi_async_get_controller W tr1 = Inr controller_data
        \<and> controller_data ''controllerType'' = Some ctype
        \<and> controller_data ''serialNumber'' = Some serial
      \<longrightarrow> async_setup K W tr c =
            (Inr (), tr1 @ [GetController],
             c\<lparr>port := (if ctype = AVATAR K then AVATAR_PORT K else CLASSIC_PORT K),
               is_avatar := (ctype = AVATAR K),
               controller_type := ctype,
               serial_number := serial\<rparr>))
   \<and> (truthy (aiolivisi_livisi_connection_data W tr) \<longrightarrow> setup_token K W tr c = (None, tr))
   \<and> (\<forall>host password.
         \<not> truthy (aiolivisi_livisi_connection_data W tr)
           \<and> config_entry_data c (CONF_HOST K) = Some host
           \<and> config_entry_data c (CONF_PASSWORD K) = Some password
           \<and> aiolivisi_async_set_token W tr
                (PyDict [(''ip_address'', host), (''password'', password)]) = None
        \<longrightarrow> setup_token K W tr c =
              (None, tr @ [SetToken (PyDict [(''ip_address'', host), (''password'', password)])]))
   \<and> (\<forall>tr' c'. async_setup K W tr c = (Inr (), tr', c') \<longrightarrow>
      (\<exists>controller_data ctype serial.
          aiolivisi_async_get_controller W (butlast tr') = Inr controller_data
        \<and> controller_data ''controllerType'' = Some ctype
        \<and> controller_data ''serialNumber'' = Some serial
        \<and> controller_type c' = ctype \<and> serial_number c' = serial
        \<and> (if ctype = AVATAR K then port c' = AVATAR_PORT K \<and> is_avatar c'
            else port c' = CLASSIC_PORT K \<and> \<not> is_avatar c')))
   \<and> (\<forall>host password e.
         \<not> truthy (aiolivisi_livisi_connection_data W tr)
           \<and> config_entry_data c (CONF_HOST K) = Some host
           \<and> config_entry_data c (CONF_PASSWORD K) = Some password
           \<and> aiolivisi_async_set_token W tr
                (PyDict [(''ip_address'', host), (''password'', password)]) = Some e
        \<longrightarrow> async_setup K W tr c =
              (Inl e, tr @ [SetToken (PyDict [(''ip_address'', host), (''password'', password)])],
               c))
   \<and> (\<forall>e tr1.
         setup_token K W tr c = (None, tr1) \<and> aiolivisi_async_get_controller W tr1 = Inl e
        \<longrightarrow> async_setup K W tr c = (Inl e, tr1 @ [GetController], c)
            \<and> (tr1 = tr \<or> (\<exists>d. tr1 = tr @ [SetToken d])))"
proof -
  have succeeds: "async_setup K W tr c =
            (Inr (), tr1 @ [GetController],
             c\<lparr>port := (if ctype = AVATAR K then AVATAR_PORT K else CLASSIC_PORT K),
               is_avatar := (ctype = AVATAR K),
               controller_type := ctype,
               serial_number := serial\<rparr>)"
    if "setup_token K W tr c = (None, tr1)"
      and "aiolivisi_async_get_controller W tr1 = Inr controller_data"
      and "controller_data ''controllerType'' = Some ctype"
      and "controller_data ''serialNumber'' = Some serial"
    for tr1 controller_data ctype serial
    using that by (simp add: async_setup_def Let_def)
  have cached: "setup_token K W tr c = (None, tr)"
    if "truthy (aiolivisi_livisi_connection_data W tr)"
    using that by (simp add: setup_token_def)
  have fresh: "setup_token K W tr c =
              (None, tr @ [SetToken (PyDict [(''ip_address'', host), (''password'', password)])])"
    if "\<not> truthy (aiolivisi_livisi_connection_data W tr)"
      and "config_entry_data c (CONF_HOST K) = Some host"
      and "config_entry_data c (CONF_PASSWORD K) = Some password"
      and "aiolivisi_async_set_token W tr
                (PyDict [(''ip_address'', host), (''password'', password)]) = None"
    for host password
    using that by (simp add: setup_token_def Let_def)
  have ok: "\<exists>controller_data ctype serial.
          aiolivisi_async_get_controller W (butlast tr') = Inr controller_data
        \<and> controller_data ''controllerType'' = Some ctype
        \<and> controller_data ''serialNumber'' = Some serial
        \<and> controller_type c' = ctype \<and> serial_number c' = serial
        \<and> (if ctype = AVATAR K then port c' = AVATAR_PORT K \<and> is_avatar c'
            else port c' = CLASSIC_PORT K \<and> \<not> is_avatar c')"
    if "async_setup K W tr c = (Inr (), tr', c')" for tr' c'
    using that
    by (auto simp add: async_setup_def Let_def
             split: prod.splits option.splits sum.splits if_splits)
  have auth: "async_setup K W tr c =
              (Inl e, tr @ [SetToken (PyDict [(''ip_address'', host), (''password'', password)])],
               c)"
    if "\<not> truthy (aiolivisi_livisi_connection_data W tr)"
      and "config_entry_data c (CONF_HOST K) = Some host"
      and "config_entry_data c (CONF_PASSWORD K) = Some password"
      and "aiolivisi_async_set_token W tr
                (PyDict [(''ip_address'', host), (''password'', password)]) = Some e"
    for host password e
    using that by (simp add: async_setup_def setup_token_def Let_def)
  have meta: "async_setup K W tr c = (Inl e, tr1 @ [GetController], c)
            \<and> (tr1 = tr \<or> (\<exists>d. tr1 = tr @ [SetToken d]))"
    if "setup_token K W tr c = (None, tr1)" and "aiolivisi_async_get_controller W tr1 = Inl e"
    for e tr1
    using that setup_token_trace[of K W tr c None tr1] by (simp add: async_setup_def)
  from succeeds cached fresh ok auth meta show ?thesis by blast
qed

text \<open>
  The theorem at work. The controller of \<open>online_env\<close> is an avatar and its client
  has no connection data: the setup requests a token, fetches the controller and stores
  the port 9090, the flag, the type and the serial number. The controller of
  \<open>classic_env\<close> is a classic one and its client has connection data: the setup only
  fetches the controller and stores the port 8080 and the flag \<open>False\<close>. Against
  \<open>offline_env\<close> the setup fails with the connectivity error of the controller fetch.
\<close>

theorem async_setup_controller_witness:
  "async_setup example_constants online_env [] configured =
     (Inr (),
      [SetToken (PyDict [(''ip_address'', PyStr ''192.168.1.20''), (''password'', PyStr ''secret'')]),
       GetController],
      configured\<lparr>port := 9090, is_avatar := True, controller_type := ''Avatar'',
                 serial_number := ''914100012345''\<rparr>)
   \<and> async_setup example_constants classic_env [] polled =
     (Inr (), [GetController],
      polled\<lparr>port := 8080, is_avatar := False, controller_type := ''Classic'',
             serial_number := ''914100067890''\<rparr>)
   \<and> fst (async_setup example_constants offline_env [] configured) = Inl ClientConnectorError"
proof -
  let ?tok = "PyDict [(''ip_address'', PyStr ''192.168.1.20''), (''password'', PyStr ''secret'')]"
  note p = async_setup_controller[of example_constants online_env "[]" configured]
  note q = async_setup_controller[of example_constants classic_env "[]" polled]
  note r = async_setup_controller[of example_constants offline_env "[]" configured]
  have nodata: "\<not> truthy (aiolivisi_livisi_connection_data online_env [])"
    by (simp add: online_env_def)
  have host: "config_entry_data configured (CONF_HOST example_constants) = Some (PyStr ''192.168.1.20'')"
    and pw: "config_entry_data configured (CONF_PASSWORD example_constants) = Some (PyStr ''secret'')"
    by (simp_all add: configured_def init_def example_constants_def)
  have accepted: "aiolivisi_async_set_token online_env [] ?tok = None"
    by (simp add: online_env_def)
  from p nodata host pw accepted
  have tok: "setup_token example_constants online_env [] configured = (None, [] @ [SetToken ?tok])"
    by blast
  have ctl: "aiolivisi_async_get_controller online_env ([] @ [SetToken ?tok])
               = Inr [''controllerType'' \<mapsto> ''Avatar'', ''serialNumber'' \<mapsto> ''914100012345'']"
    by (simp add: online_env_def)
  have k1: "[''controllerType'' \<mapsto> ''Avatar'', ''serialNumber'' \<mapsto> ''914100012345'']
              ''controllerType'' = Some ''Avatar''"
    and k2: "[''controllerType'' \<mapsto> ''Avatar'', ''serialNumber'' \<mapsto> ''914100012345'']
              ''serialNumber'' = Some ''914100012345''"
    by simp_all
  from p tok ctl k1 k2
  have "async_setup example_constants online_env [] configured =
          (Inr (), ([] @ [SetToken ?tok]) @ [GetController],
           configured\<lparr>port := (if ''Avatar'' = AVATAR example_constants
                               then AVATAR_PORT example_constants
                               else CLASSIC_PORT example_constants),
                      is_avatar := (''Avatar'' = AVATAR example_constants),
                      controller_type := ''Avatar'',
                      serial_number := ''914100012345''\<rparr>)"
    by blast
  then have a: "async_setup example_constants online_env [] configured =
     (Inr (), [SetToken ?tok, GetController],
      configured\<lparr>port := 9090, is_avatar := True, controller_type := ''Avatar'',
                 serial_number := ''914100012345''\<rparr>)"
    by (simp add: example_constants_def)
  have data: "truthy (aiolivisi_livisi_connection_data classic_env [])"
    by (simp add: classic_env_def online_env_def)
  from q data
  have tok2: "setup_token example_constants classic_env [] polled = (None, [])"
    by blast
  have ctl2: "aiolivisi_async_get_controller classic_env []
               = Inr [''controllerType'' \<mapsto> ''Classic'', ''serialNumber'' \<mapsto> ''914100067890'']"
    by (simp add: classic_env_def online_env_def)
  have k3: "[''controllerType'' \<mapsto> ''Classic'', ''serialNumber'' \<mapsto> ''914100067890'']
              ''controllerType'' = Some ''Classic''"
    and k4: "[''controllerType'' \<mapsto> ''Classic'', ''serialNumber'' \<mapsto> ''914100067890'']
              ''serialNumber'' = Some ''914100067890''"
    by simp_all
  from q tok2 ctl2 k3 k4
  have "async_setup example_constants classic_env [] polled =
          (Inr (), [] @ [GetController],
           polled\<lparr>port := (if ''Classic'' = AVATAR example_constants
                           then AVATAR_PORT example_constants
                           else CLASSIC_PORT example_constants),
                  is_avatar := (''Classic'' = AVATAR example_constants),
                  controller_type := ''Classic'',
                  serial_number := ''914100067890''\<rparr>)"
    by blast
  then have b: "async_setup example_constants classic_env [] polled =
     (Inr (), [GetController],
      polled\<lparr>port := 8080, is_avatar := False, controller_type := ''Classic'',
             serial_number := ''914100067890''\<rparr>)"
    by (simp add: example_constants_def)
  have nodata3: "\<not> truthy (aiolivisi_livisi_connection_data offline_env [])"
    by (simp add: offline_env_def online_env_def)
  have accepted3: "aiolivisi_async_set_token offline_env [] ?tok = None"
    by (simp add: offline_env_def online_env_def)
  from r nodata3 host pw accepted3
  have tok3: "setup_token example_constants offline_env [] configured = (None, [] @ [SetToken ?tok])"
    by blast
  have ctl3: "aiolivisi_async_get_controller offline_env ([] @ [SetToken ?tok])
                = Inl ClientConnectorError"
    by (simp add: offline_env_def online_env_def)
  from r tok3 ctl3
  have "async_setup example_constants offline_env [] configured =
          (Inl ClientConnectorError, ([] @ [SetToken ?tok]) @ [GetController], configured)"
    by blast
  then have off: "fst (async_setup example_constants offline_env [] configured)
                    = Inl ClientConnectorError"
    by simp
  from a b off show ?thesis by simp
qed

subsection \<open>Device state and rooms\<close>

text \<open>
  C6. \<^verbatim>\<open>async_get_device_state\<close> makes exactly one request to the vendor client, for
  the capability id without its first character, and changes no attribute. When the
  client answers nothing the result is \<^verbatim>\<open>None\<close> and not an exception; when it
  answers a state object the result is the value stored under the key, and
  \<^verbatim>\<open>None\<close> when the object has no such key or the entry has no value.
\<close>

theorem async_get_device_state_result:
  "fst (snd (async_get_device_state W capability key tr c)) = tr @ [GetDeviceState (drop 1 capability)]
   \<and> snd (snd (async_get_device_state W capability key tr c)) = c
   \<and> (\<forall>x rest. capability = x # rest \<longrightarrow>
         fst (snd (async_get_device_state W capability key tr c)) = tr @ [GetDeviceState rest])
   \<and> (aiolivisi_async_get_device_state W tr (drop 1 capability) = Inr None \<longrightarrow>
         fst (async_get_device_state W capability key tr c) = Inr PyNone)
   \<and> (\<forall>response entry v.
         aiolivisi_async_get_device_state W tr (drop 1 capability) = Inr (Some response)
           \<and> response key = Some entry \<and> entry ''value'' = Some v \<longrightarrow>
         fst (async_get_device_state W capability key tr c) = Inr v)
   \<and> (\<forall>response.
         aiolivisi_async_get_device_state W tr (drop 1 capability) = Inr (Some response)
           \<and> (response key = None \<or> (\<exists>entry. response key = Some entry \<and> entry ''value'' = None)) \<longrightarrow>
         fst (async_get_device_state W capability key tr c) = Inr PyNone)"
  by (auto simp add: async_get_device_state_def Let_def split: sum.split option.split)

text \<open>
  The theorem at work: the state of \<open>/c1\<close> is requested as \<open>c1\<close> and its
  \<open>onState\<close> is \<open>True\<close>; the key \<open>luminance\<close> is not in that state, and the client
  has no state at all for \<open>/c9\<close>.
\<close>

theorem async_get_device_state_result_witness:
  "async_get_device_state online_env ''/c1'' ''onState'' [] polled
     = (Inr (PyBool True), [GetDeviceState ''c1''], polled)
   \<and> fst (async_get_device_state online_env ''/c1'' ''luminance'' [] polled) = Inr PyNone
   \<and> fst (async_get_device_state online_env ''/c9'' ''onState'' [] polled) = Inr PyNone"
proof -
  have a: "aiolivisi_async_get_device_state online_env [] (drop 1 ''/c1'')
             = Inr (Some [''onState'' \<mapsto> [''value'' \<mapsto> PyBool True]])"
    by (simp add: online_env_def)
  have b: "aiolivisi_async_get_device_state online_env [] (drop 1 ''/c9'') = Inr None"
    by (simp add: online_env_def)
  have e1: "[''onState'' \<mapsto> [''value'' \<mapsto> PyBool True]] ''onState''
              = Some [''value'' \<mapsto> PyBool True]"
    by simp
  have e2: "[''value'' \<mapsto> PyBool True] ''value'' = Some (PyBool True)"
    by simp
  have e3: "[''onState'' \<mapsto> [''value'' \<mapsto> PyBool True]] ''luminance'' = None"
    by simp
  note p = async_get_device_state_result[of online_env "''/c1''" "''onState''" "[]" polled]
  note q = async_get_device_state_result[of online_env "''/c1''" "''luminance''" "[]" polled]
  note r = async_get_device_state_result[of online_env "''/c9''" "''onState''" "[]" polled]
  from p a e1 e2
  have r1: "fst (async_get_device_state online_env ''/c1'' ''onState'' [] polled)
              = Inr (PyBool True)"
    by blast
  from p have t1: "fst (snd (async_get_device_state online_env ''/c1'' ''onState'' [] polled))
                     = [GetDeviceState ''c1'']"
    by simp
  from p have s1: "snd (snd (async_get_device_state online_env ''/c1'' ''onState'' [] polled))
                     = polled"
    by blast
  from q a e3
  have r2: "fst (async_get_device_state online_env ''/c1'' ''luminance'' [] polled) = Inr PyNone"
    by blast
  from r b
  have r3: "fst (async_get_device_state online_env ''/c9'' ''onState'' [] polled) = Inr PyNone"
    by blast
  have "async_get_device_state online_env ''/c1'' ''onState'' [] polled
          = (Inr (PyBool True), [GetDeviceState ''c1''], polled)"
    using r1 t1 s1
    by (cases "async_get_device_state online_env ''/c1'' ''onState'' [] polled") simp
  with r2 r3 show ?thesis by simp
qed

text \<open>
  C9. \<^verbatim>\<open>get_room_name\<close> gives the name the room registry holds for the device's
  location when the device has a location and the registry knows it, and \<^verbatim>\<open>None\<close>
  when the device has no location or the registry does not know it. The result depends
  on the device and the registry only, so a second call with the same device and an
  unchanged registry gives the same result.
\<close>

theorem get_room_name_lookup:
  "(\<forall>l n. location d = Some l \<and> rooms c l = Some n \<longrightarrow> get_room_name c d = Some n)
   \<and> (location d = None \<longrightarrow> get_room_name c d = None)
   \<and> (\<forall>l. location d = Some l \<and> rooms c l = None \<longrightarrow> get_room_name c d = None)
   \<and> (\<forall>c'. rooms c' = rooms c \<longrightarrow> get_room_name c' d = get_room_name c d)"
  by (auto simp add: get_room_name_def split: option.split)

text \<open>
  The theorem at work: once \<^verbatim>\<open>async_set_all_rooms\<close> has stored the kitchen as room
  \<open>r1\<close>, the device \<open>d1\<close> (location \<open>r1\<close>) is in the kitchen, also after a poll has
  changed other attributes; \<open>d2\<close> has no location, and before the rooms are loaded
  \<open>r1\<close> is unknown.
\<close>

theorem get_room_name_lookup_witness:
  "get_room_name (snd (snd (async_set_all_rooms online_env [] configured))) device_d1
     = Some ''Kitchen''
   \<and> get_room_name
        ((snd (snd (async_set_all_rooms online_env [] configured)))\<lparr>port := 9090\<rparr>) device_d1
     = Some ''Kitchen''
   \<and> get_room_name (snd (snd (async_set_all_rooms online_env [] configured))) device_d2 = None
   \<and> get_room_name configured device_d1 = None"
proof -
  let ?c = "snd (snd (async_set_all_rooms online_env [] configured))"
  have reg: "rooms ?c ''r1'' = Some ''Kitchen''"
    by (simp add: async_set_all_rooms_def online_env_def kitchen_def)
  have l1: "location device_d1 = Some ''r1''" by (simp add: device_d1_def)
  have l2: "location device_d2 = None" by (simp add: device_d2_def)
  have empty: "rooms configured ''r1'' = None" by (simp add: configured_def init_def)
  have same: "rooms (?c\<lparr>port := 9090\<rparr>) = rooms ?c" by simp
  from get_room_name_lookup[of device_d1 ?c] l1 reg
  have a: "get_room_name ?c device_d1 = Some ''Kitchen''" by blast
  from get_room_name_lookup[of device_d1 ?c] same
  have "get_room_name (?c\<lparr>port := 9090\<rparr>) device_d1 = get_room_name ?c device_d1" by blast
  with a have b: "get_room_name (?c\<lparr>port := 9090\<rparr>) device_d1 = Some ''Kitchen''" by simp
  from get_room_name_lookup[of device_d2 ?c] l2
  have c: "get_room_name ?c device_d2 = None" by blast
  from get_room_name_lookup[of device_d1 configured] l1 empty
  have d: "get_room_name configured device_d1 = None" by blast
  from a b c d show ?thesis by simp
qed

subsection \<open>Stream events\<close>

text \<open>
  C7. For an event whose type is \<^verbatim>\<open>LIVISI_EVENT_BUTTON_PRESSED\<close>: when the index
  maps the event's source to a device id, \<^verbatim>\<open>on_data\<close> fires exactly one host event
  \<open>livisi_event\<close> with that device id, the kind \<^verbatim>\<open>EVENT_BUTTON_PRESSED\<close>, the
  property \<open>index\<close> (0 when the properties have no such key) and the property
  \<open>type\<close> (\<open>ShortPress\<close> when they have no such key); when the index does not know
  the source, nothing is fired. In both cases the call returns normally and the
  attributes are unchanged.
\<close>

theorem on_data_button_pressed:
  assumes "event_type e = LIVISI_EVENT_BUTTON_PRESSED K"
  shows "(\<forall>d. capability_to_device c (source e) = Some d \<longrightarrow>
            on_data K e tr c =
              (tr @ [BusFire ''livisi_event''
                      [(''device_id'', PyStr d),
                       (''type'', PyStr (EVENT_BUTTON_PRESSED K)),
                       (''button_index'',
                          case properties e ''index'' of None \<Rightarrow> PyInt 0 | Some v \<Rightarrow> v),
                       (''press_type'',
                          case properties e ''type'' of None \<Rightarrow> PyStr ''ShortPress'' | Some v \<Rightarrow> v)]],
               c))
         \<and> (capability_to_device c (source e) = None \<longrightarrow> on_data K e tr c = (tr, c))"
  using assms by (simp add: on_data_def dict_get_def)

text \<open>
  The theorem at work, on the example of the specification: the press of button 2 at
  capability \<open>c1\<close> of device \<open>d1\<close>, a press without properties, and a press at a
  capability the index does not know.
\<close>

theorem on_data_button_pressed_witness:
  "on_data example_constants button_event [] polled =
     ([BusFire ''livisi_event''
         [(''device_id'', PyStr ''d1''), (''type'', PyStr ''button_pressed''),
          (''button_index'', PyInt 2), (''press_type'', PyStr ''LongPress'')]],
      polled)
   \<and> on_data example_constants (button_event\<lparr>properties := Map.empty\<rparr>) [] polled =
     ([BusFire ''livisi_event''
         [(''device_id'', PyStr ''d1''), (''type'', PyStr ''button_pressed''),
          (''button_index'', PyInt 0), (''press_type'', PyStr ''ShortPress'')]],
      polled)
   \<and> on_data example_constants (button_event\<lparr>source := ''c7''\<rparr>) [] polled = ([], polled)"
proof -
  have ty: "event_type ev = LIVISI_EVENT_BUTTON_PRESSED example_constants"
    if "event_type ev = ''ButtonPressed''" for ev :: livisi_event
    using that by (simp add: example_constants_def)
  have known: "capability_to_device polled ''c1'' = Some ''d1''"
    by (simp add: polled_def)
  have unknown: "capability_to_device polled ''c7'' = None"
    by (simp add: polled_def configured_def init_def)
  have t1: "event_type button_event = ''ButtonPressed''"
    and t2: "event_type (button_event\<lparr>properties := Map.empty\<rparr>) = ''ButtonPressed''"
    and t3: "event_type (button_event\<lparr>source := ''c7''\<rparr>) = ''ButtonPressed''"
    by (simp_all add: button_event_def)
  from on_data_button_pressed[OF ty[OF t1], of polled "[]"] known
  have a: "on_data example_constants button_event [] polled =
     ([BusFire ''livisi_event''
         [(''device_id'', PyStr ''d1''), (''type'', PyStr ''button_pressed''),
          (''button_index'', PyInt 2), (''press_type'', PyStr ''LongPress'')]],
      polled)"
    by (simp add: button_event_def example_constants_def)
  from on_data_button_pressed[OF ty[OF t2], of polled "[]"] known
  have b: "on_data example_constants (button_event\<lparr>properties := Map.empty\<rparr>) [] polled =
     ([BusFire ''livisi_event''
         [(''device_id'', PyStr ''d1''), (''type'', PyStr ''button_pressed''),
          (''button_index'', PyInt 0), (''press_type'', PyStr ''ShortPress'')]],
      polled)"
    by (simp add: button_event_def example_constants_def)
  from on_data_button_pressed[OF ty[OF t3], of polled "[]"] unknown
  have c: "on_data example_constants (button_event\<lparr>source := ''c7''\<rparr>) [] polled = ([], polled)"
    by (simp add: button_event_def)
  from a b c show ?thesis by simp
qed

text \<open>
  C4. For an event that \<^verbatim>\<open>on_data\<close> handles as a state change (its type is
  \<^verbatim>\<open>LIVISI_EVENT_STATE_CHANGED\<close> and neither of the two types tested before it), the
  publishes are, in this order: one on the topic of \<^verbatim>\<open>LIVISI_STATE_CHANGE\<close> and the
  source for each of \<open>onState\<close>, \<open>vrccData\<close>, \<open>isOpen\<close>, \<open>luminance\<close> that is not
  \<^verbatim>\<open>None\<close>, carrying that value, then one on the topic of
  \<^verbatim>\<open>LIVISI_REACHABILITY_CHANGE\<close> and the source when \<open>isReachable\<close> is not
  \<^verbatim>\<open>None\<close>. Nothing else is emitted, no publish carries \<^verbatim>\<open>None\<close>, and an event
  with only \<open>luminance = 42\<close> gives the single state-change publish of 42.
\<close>

theorem on_data_state_changed:
  assumes "event_type e \<noteq> LIVISI_EVENT_BUTTON_PRESSED K"
    and "event_type e \<noteq> LIVISI_EVENT_MOTION_DETECTED K"
    and "event_type e = LIVISI_EVENT_STATE_CHANGED K"
  shows "on_data K e tr c =
           (tr @ map (DispatcherSend (LIVISI_STATE_CHANGE K @ ''_'' @ source e))
                   (filter (\<lambda>v. v \<noteq> PyNone) [onState e, vrccData e, isOpen e, luminance e])
               @ map (DispatcherSend (LIVISI_REACHABILITY_CHANGE K @ ''_'' @ source e))
                   (filter (\<lambda>v. v \<noteq> PyNone) [isReachable e]),
            c)
         \<and> (\<forall>topic v. DispatcherSend topic v \<in> set (drop (length tr) (fst (on_data K e tr c)))
               \<longrightarrow> v \<noteq> PyNone)
         \<and> (onState e = PyNone \<and> vrccData e = PyNone \<and> isOpen e = PyNone
              \<and> luminance e = PyInt 42 \<and> isReachable e = PyNone \<longrightarrow>
             on_data K e tr c =
               (tr @ [DispatcherSend (LIVISI_STATE_CHANGE K @ ''_'' @ source e) (PyInt 42)], c))"
proof -
  have eq: "on_data K e tr c =
           (tr @ map (DispatcherSend (LIVISI_STATE_CHANGE K @ ''_'' @ source e))
                   (filter (\<lambda>v. v \<noteq> PyNone) [onState e, vrccData e, isOpen e, luminance e])
               @ map (DispatcherSend (LIVISI_REACHABILITY_CHANGE K @ ''_'' @ source e))
                   (filter (\<lambda>v. v \<noteq> PyNone) [isReachable e]),
            c)"
    using assms by (simp add: on_data_def Let_def async_dispatcher_send_def)
  have nonempty: "\<forall>topic v. DispatcherSend topic v \<in> set (drop (length tr) (fst (on_data K e tr c)))
               \<longrightarrow> v \<noteq> PyNone"
    unfolding eq by auto
  have lum: "onState e = PyNone \<and> vrccData e = PyNone \<and> isOpen e = PyNone
              \<and> luminance e = PyInt 42 \<and> isReachable e = PyNone \<longrightarrow>
             on_data K e tr c =
               (tr @ [DispatcherSend (LIVISI_STATE_CHANGE K @ ''_'' @ source e) (PyInt 42)], c)"
    unfolding eq by simp
  from eq nonempty lum show ?thesis by blast
qed

text \<open>
  The theorem at work: the event with only \<open>luminance = 42\<close>, and one that also says
  the capability is switched off and reachable (\<open>False\<close> is a value, not \<^verbatim>\<open>None\<close>).
\<close>

theorem on_data_state_changed_witness:
  "on_data example_constants luminance_event [] polled =
     ([DispatcherSend ''livisi_state_change_c1'' (PyInt 42)], polled)
   \<and> on_data example_constants
       (luminance_event\<lparr>onState := PyBool False, isReachable := PyBool True\<rparr>) [] polled =
     ([DispatcherSend ''livisi_state_change_c1'' (PyBool False),
       DispatcherSend ''livisi_state_change_c1'' (PyInt 42),
       DispatcherSend ''livisi_reachability_change_c1'' (PyBool True)], polled)"
proof -
  have ty: "event_type ev \<noteq> LIVISI_EVENT_BUTTON_PRESSED example_constants"
           "event_type ev \<noteq> LIVISI_EVENT_MOTION_DETECTED example_constants"
           "event_type ev = LIVISI_EVENT_STATE_CHANGED example_constants"
    if "event_type ev = ''StateChanged''" for ev :: livisi_event
    using that by (simp_all add: example_constants_def)
  have t1: "event_type luminance_event = ''StateChanged''"
    and t2: "event_type (luminance_event\<lparr>onState := PyBool False, isReachable := PyBool True\<rparr>)
               = ''StateChanged''"
    by (simp_all add: luminance_event_def)
  from on_data_state_changed[OF ty[OF t1], of "[]" polled]
  have a: "on_data example_constants luminance_event [] polled =
     ([DispatcherSend ''livisi_state_change_c1'' (PyInt 42)], polled)"
    by (simp add: luminance_event_def example_constants_def)
  from on_data_state_changed[OF ty[OF t2], of "[]" polled]
  have b: "on_data example_constants
       (luminance_event\<lparr>onState := PyBool False, isReachable := PyBool True\<rparr>) [] polled =
     ([DispatcherSend ''livisi_state_change_c1'' (PyBool False),
       DispatcherSend ''livisi_state_change_c1'' (PyInt 42),
       DispatcherSend ''livisi_reachability_change_c1'' (PyBool True)], polled)"
    by (simp add: luminance_event_def example_constants_def)
  from a b show ?thesis by simp
qed

text \<open>
  C10. For an event whose type is none of the three types \<^verbatim>\<open>on_data\<close> tests, the
  call emits nothing (no host event, no publish) and changes no attribute; and for
  every event, of whatever type, the attributes after \<^verbatim>\<open>on_data\<close> are the attributes
  before it.
\<close>

theorem on_data_other_type:
  "(event_type e \<noteq> LIVISI_EVENT_BUTTON_PRESSED K
      \<and> event_type e \<noteq> LIVISI_EVENT_MOTION_DETECTED K
      \<and> event_type e \<noteq> LIVISI_EVENT_STATE_CHANGED K
    \<longrightarrow> on_data K e tr c = (tr, c))
   \<and> snd (on_data K e tr c) = c"
  by (simp add: on_data_def Let_def split: option.split)

text \<open>
  The theorem at work: an event of type \<open>ConfigChanged\<close>, although it carries an
  on-state and a reachability flag, is dropped.
\<close>

theorem on_data_other_type_witness:
  "on_data example_constants config_event [] polled = ([], polled)
   \<and> snd (on_data example_constants button_event [] polled) = polled"
proof -
  have ty: "event_type config_event \<noteq> LIVISI_EVENT_BUTTON_PRESSED example_constants
      \<and> event_type config_event \<noteq> LIVISI_EVENT_MOTION_DETECTED example_constants
      \<and> event_type config_event \<noteq> LIVISI_EVENT_STATE_CHANGED example_constants"
    by (simp add: config_event_def example_constants_def)
  from on_data_other_type[of config_event example_constants "[]" polled] ty
  have a: "on_data example_constants config_event [] polled = ([], polled)"
    by blast
  from on_data_other_type[of button_event example_constants "[]" polled]
  have b: "snd (on_data example_constants button_event [] polled) = polled"
    by blast
  from a b show ?thesis by simp
qed

subsection \<open>Stream lifecycle\<close>

text \<open>
  C3. \<^verbatim>\<open>on_close\<close> emits, in this order, one publish of \<^verbatim>\<open>False\<close> on the
  reachability topic of each device id of \<^verbatim>\<open>self.devices\<close>, and then the one
  connect of the websocket: every device id of the set has its publish before the
  connect, which is the last call. The connect is made with \<^verbatim>\<open>self.port\<close>, the port
  \<^verbatim>\<open>ws_connect\<close> connects with, and the attributes are unchanged.
\<close>

theorem on_close_publishes_before_reconnect:
  "snd (on_close K W tr c) =
     (tr @ map (\<lambda>d. DispatcherSend (LIVISI_REACHABILITY_CHANGE K @ ''_'' @ d) (PyBool False))
             (devices c)
         @ [WebsocketConnect (port c)], c)
   \<and> (\<forall>d \<in> set (devices c).
        DispatcherSend (LIVISI_REACHABILITY_CHANGE K @ ''_'' @ d) (PyBool False)
          \<in> set (butlast (drop (length tr) (fst (snd (on_close K W tr c))))))
   \<and> last (fst (snd (on_close K W tr c))) = WebsocketConnect (port c)
   \<and> fst (snd (ws_connect W tr0 c)) = tr0 @ [WebsocketConnect (port c)]"
proof -
  have eq: "snd (on_close K W tr c) =
     (tr @ map (\<lambda>d. DispatcherSend (LIVISI_REACHABILITY_CHANGE K @ ''_'' @ d) (PyBool False))
             (devices c)
         @ [WebsocketConnect (port c)], c)"
    by (simp add: on_close_def Let_def publish_unreachable_eq split: option.split)
  have ws: "fst (snd (ws_connect W tr0 c)) = tr0 @ [WebsocketConnect (port c)]"
    by (simp add: ws_connect_def split: option.split)
  have pub: "\<forall>d \<in> set (devices c).
        DispatcherSend (LIVISI_REACHABILITY_CHANGE K @ ''_'' @ d) (PyBool False)
          \<in> set (butlast (drop (length tr) (fst (snd (on_close K W tr c)))))"
    unfolding eq by (simp add: butlast_append)
  have lst: "last (fst (snd (on_close K W tr c))) = WebsocketConnect (port c)"
    unfolding eq by simp
  from eq pub lst ws show ?thesis by blast
qed

text \<open>
  The theorem at work: the stream opened by \<^verbatim>\<open>ws_connect\<close> on port 9090 closes
  while the devices \<open>d1\<close> and \<open>d2\<close> are known.
\<close>

theorem on_close_publishes_before_reconnect_witness:
  "snd (on_close example_constants online_env [WebsocketConnect 9090] polled) =
     ([WebsocketConnect 9090,
       DispatcherSend ''livisi_reachability_change_d1'' (PyBool False),
       DispatcherSend ''livisi_reachability_change_d2'' (PyBool False),
       WebsocketConnect 9090], polled)
   \<and> fst (snd (ws_connect online_env [] polled)) = [WebsocketConnect 9090]"
proof -
  have dv: "devices polled = [''d1'', ''d2'']" and pt: "port polled = 9090"
    by (simp_all add: polled_def)
  have rc: "LIVISI_REACHABILITY_CHANGE example_constants = ''livisi_reachability_change''"
    by (simp add: example_constants_def)
  note p = on_close_publishes_before_reconnect
             [of example_constants online_env "[WebsocketConnect 9090]" polled "[]"]
  from p have a: "snd (on_close example_constants online_env [WebsocketConnect 9090] polled) =
     ([WebsocketConnect 9090,
       DispatcherSend ''livisi_reachability_change_d1'' (PyBool False),
       DispatcherSend ''livisi_reachability_change_d2'' (PyBool False),
       WebsocketConnect 9090], polled)"
    by (simp add: dv pt rc)
  from p have b: "fst (snd (ws_connect online_env [] polled)) = [WebsocketConnect 9090]"
    by (simp add: pt)
  from a b show ?thesis by simp
qed

end
